theory Spec2Isabelle
  imports Complex_Main
begin

section \<open>Hydraulic precalculation of a district heating network\<close>

text \<open>
  A shallow embedding of \<^verbatim>\<open>topotherm/precalculation_hydraulic.py\<close>. Python floats are
  modelled as exact reals, so a statement below is one of real arithmetic unless it says
  otherwise. The exception is the control curve: its value at the upper turning point
  depends on the rounding of doubles, and \<open>determine_feed_line_temp_double\<close> is the same
  function with every arithmetic operation rounded to the nearest double.

  A float computation can leave the reals in two ways, and both are results of the model:
  \<^item> a division of built-in Python floats by zero raises \<^verbatim>\<open>ZeroDivisionError\<close>;
  \<^item> a numpy operation outside its real domain (\<^verbatim>\<open>np.log\<close> of a non-positive number, a
    division of a numpy scalar or array by zero, \<^verbatim>\<open>np.sqrt\<close> of a negative number) raises
    nothing: it warns and goes on with \<^verbatim>\<open>inf\<close> or \<^verbatim>\<open>nan\<close>. The model stops there with
    \<open>NotReal\<close>, which says that the computation has left the reals and nothing about what
    follows (the float finally returned, or an error a library raises on such a value).

  \<open>ValueError\<close> and \<open>TypeError\<close> are raised by the scipy routines the module calls.
  \<open>DomainError\<close> and \<open>ConvergenceError\<close> are the two errors the specification names; no
  statement of the source raises either of them.
\<close>

datatype error =
    ZeroDivisionError
  | NotReal
  | ValueError
  | TypeError
  | DomainError
  | ConvergenceError

definition bind_err :: "error + 'a \<Rightarrow> ('a \<Rightarrow> error + 'b) \<Rightarrow> error + 'b" where
  "bind_err m f = (case m of Inl e \<Rightarrow> Inl e | Inr v \<Rightarrow> f v)"

text \<open>\<^verbatim>\<open>a / b\<close> on built-in floats.\<close>

definition py_div :: "real \<Rightarrow> real \<Rightarrow> error + real" where
  "py_div a b = (if b = 0 then Inl ZeroDivisionError else Inr (a / b))"

text \<open>\<^verbatim>\<open>a / b\<close> where an operand is a numpy scalar or array element.\<close>

definition np_div :: "real \<Rightarrow> real \<Rightarrow> error + real" where
  "np_div a b = (if b = 0 then Inl NotReal else Inr (a / b))"

text \<open>
  A function of the module takes built-in floats as well as numpy scalars and arrays.
  Where a claim depends on it, the kind of the operands is an argument of the model: a
  division follows numpy as soon as one of its operands is a numpy value.
\<close>

datatype operand_kind = BuiltinFloat | NumpyFloat

definition float_div :: "operand_kind \<Rightarrow> real \<Rightarrow> real \<Rightarrow> error + real" where
  "float_div kind a b = (case kind of BuiltinFloat \<Rightarrow> py_div a b | NumpyFloat \<Rightarrow> np_div a b)"

text \<open>\<^verbatim>\<open>np.log\<close>, \<^verbatim>\<open>np.log10\<close> and \<^verbatim>\<open>np.sqrt\<close>.\<close>

definition np_log :: "real \<Rightarrow> error + real" where
  "np_log x = (if 0 < x then Inr (ln x) else Inl NotReal)"

definition np_log10 :: "real \<Rightarrow> error + real" where
  "np_log10 x = (if 0 < x then Inr (log 10 x) else Inl NotReal)"

definition np_sqrt :: "real \<Rightarrow> error + real" where
  "np_sqrt x = (if 0 \<le> x then Inr (sqrt x) else Inl NotReal)"

text \<open>
  \<^verbatim>\<open>x ** y\<close> on built-in floats for a positive exponent \<open>y\<close> that is not an integer: a
  negative base gives a complex number.
\<close>

definition py_pow :: "real \<Rightarrow> real \<Rightarrow> error + real" where
  "py_pow x y = (if x < 0 then Inl NotReal else Inr (x powr y))"

text \<open>\<^verbatim>\<open>x ** -2\<close> on a numpy scalar: zero gives \<^verbatim>\<open>inf\<close>.\<close>

definition np_pow_minus2 :: "real \<Rightarrow> error + real" where
  "np_pow_minus2 x = (if x = 0 then Inl NotReal else Inr (1 / x\<^sup>2))"

subsection \<open>Settings\<close>

text \<open>
  The module reads its physical constants from \<^verbatim>\<open>topotherm.settings\<close> (classes
  \<^verbatim>\<open>Water\<close>, \<^verbatim>\<open>Ground\<close>, \<^verbatim>\<open>Piping\<close>), which is a parameter of the model: each function
  takes the settings it reads as arguments. \<^verbatim>\<open>Piping.number_diameter\<close> is the length of
  \<^verbatim>\<open>Piping.diameter\<close>; \<^verbatim>\<open>Piping.ratio\<close> and \<^verbatim>\<open>Piping.cost\<close> are arrays over the catalog.
\<close>

record Water =
  Water_density :: real
  Water_dynamic_viscosity :: real
  Water_heat_capacity_cp :: real

record Ground =
  Ground_thermal_conductivity :: real

record Piping =
  Piping_diameter :: "real list"
  Piping_ratio :: "real list"
  Piping_cost :: "real list"
  Piping_roughness :: real
  Piping_max_pr_loss :: real
  Piping_thermal_conductivity :: real

definition Piping_number_diameter :: "Piping \<Rightarrow> nat" where
  "Piping_number_diameter p = length (Piping_diameter p)"

subsection \<open>Supply temperature control curve\<close>

definition determine_feed_line_temp :: "real \<Rightarrow> real \<Rightarrow> real \<Rightarrow> real \<Rightarrow> real \<Rightarrow> error + real" where
  "determine_feed_line_temp ambient_temperature temp_sup_high temp_sup_low
      temp_turn_high temp_turn_low =
    (if ambient_temperature < temp_turn_high then Inr temp_sup_high
     else if ambient_temperature \<ge> temp_turn_high \<and> ambient_temperature \<le> temp_turn_low then
       bind_err (py_div (ambient_temperature - temp_turn_high) (temp_turn_low - temp_turn_high))
         (\<lambda>q. Inr (temp_sup_high - q * (temp_sup_high - temp_sup_low)))
     else Inr temp_sup_low)"

text \<open>
  Doubles are the reals that \<open>fl\<close> leaves unchanged. \<open>fl\<close> rounds to the nearest number
  with a significand of 53 bits, ties to the even significand: in the binade
  \<open>2 ^ e \<le> \<bar>x\<bar> < 2 ^ (e + 1)\<close> these are the multiples of \<open>2 ^ (e - 52)\<close>. The exponent
  range is not bounded (no overflow, no subnormal numbers), which temperatures do not
  reach. Each of the five arithmetic operations of the interpolation is rounded;
  comparisons of doubles are exact.
\<close>

definition binade :: "real \<Rightarrow> int" where
  "binade x = \<lfloor>log 2 \<bar>x\<bar>\<rfloor>"

definition rint :: "real \<Rightarrow> int" where
  "rint x =
    (let f = \<lfloor>x\<rfloor>; r = x - of_int f in
     if r < 1 / 2 then f else if 1 / 2 < r then f + 1 else if even f then f else f + 1)"

definition fl :: "real \<Rightarrow> real" where
  "fl x =
    (if x = 0 then 0
     else let ulp = 2 powr (of_int (binade x) - 52) in of_int (rint (x / ulp)) * ulp)"

definition determine_feed_line_temp_double :: "real \<Rightarrow> real \<Rightarrow> real \<Rightarrow> real \<Rightarrow> real \<Rightarrow> error + real" where
  "determine_feed_line_temp_double ambient_temperature temp_sup_high temp_sup_low
      temp_turn_high temp_turn_low =
    (if ambient_temperature < temp_turn_high then Inr temp_sup_high
     else if ambient_temperature \<ge> temp_turn_high \<and> ambient_temperature \<le> temp_turn_low then
       bind_err (py_div (fl (ambient_temperature - temp_turn_high))
                        (fl (temp_turn_low - temp_turn_high)))
         (\<lambda>q. Inr (fl (temp_sup_high - fl (fl q * fl (temp_sup_high - temp_sup_low)))))
     else Inr temp_sup_low)"

subsection \<open>Flow and capacity conversions\<close>

definition mass_flow :: "Water \<Rightarrow> real \<Rightarrow> real \<Rightarrow> real" where
  "mass_flow w velocity diameter = Water_density w * velocity * (pi / 4) * diameter\<^sup>2"

definition pipe_capacity :: "Water \<Rightarrow> real \<Rightarrow> real \<Rightarrow> real \<Rightarrow> real" where
  "pipe_capacity w m_flow temperature_supply temperature_return =
     m_flow * Water_heat_capacity_cp w * (temperature_supply - temperature_return)"

text \<open>
  \<open>kind\<close> is \<open>NumpyFloat\<close> when the capacity or a temperature is a numpy value (such as the
  capacities \<^verbatim>\<open>pipe_capacity\<close> returns on the arrays of the module), and \<open>BuiltinFloat\<close> when
  all three arguments are built-in floats.
\<close>

definition capacity_to_diameter ::
    "Water \<Rightarrow> operand_kind \<Rightarrow> real \<Rightarrow> real \<Rightarrow> real \<Rightarrow> error + real" where
  "capacity_to_diameter w kind capacity temperature_supply temperature_return =
     float_div kind capacity
       (Water_heat_capacity_cp w * (temperature_supply - temperature_return))"

subsection \<open>Thermal resistance and heat loss\<close>

definition thermal_resistance :: "Ground \<Rightarrow> Piping \<Rightarrow> real \<Rightarrow> real \<Rightarrow> real \<Rightarrow> error + real" where
  "thermal_resistance g p diameter diameter_ratio depth =
    (let outer_diameter = diameter * diameter_ratio in
     bind_err (py_div (4 * depth) outer_diameter) (\<lambda>q.
     bind_err (np_log q) (\<lambda>lg.
     bind_err (np_div lg (2 * pi * Ground_thermal_conductivity g)) (\<lambda>thermal_resistance_ground.
     bind_err (np_log diameter_ratio) (\<lambda>li.
     bind_err (np_div li (2 * pi * Piping_thermal_conductivity p)) (\<lambda>thermal_resistance_insulation.
     Inr (thermal_resistance_insulation + thermal_resistance_ground)))))))"

definition heat_loss_pipe :: "Water \<Rightarrow> real \<Rightarrow> real \<Rightarrow> real \<Rightarrow> real \<Rightarrow> real \<Rightarrow> error + real" where
  "heat_loss_pipe w m_flow len temperature_in thermal_resistance_pipe ambient_temperature =
    (let temp_diff_in = temperature_in - ambient_temperature in
     bind_err (py_div (- len) (m_flow * Water_heat_capacity_cp w * thermal_resistance_pipe)) (\<lambda>q.
       let temp_diff_out = temp_diff_in * exp q;
           temperature_out = temp_diff_out + ambient_temperature
       in np_div (m_flow * Water_heat_capacity_cp w * (temperature_in - temperature_out)) len))"

subsection \<open>Maximal flow velocity\<close>

text \<open>
  The residual \<^verbatim>\<open>vel_calculation\<close> that \<^verbatim>\<open>max_flow_velocity\<close> hands to the root finder.
  \<^verbatim>\<open>vel\<close> is a numpy array, so every operation on it follows numpy; only
  \<^verbatim>\<open>roughness / (3.7 * diameter)\<close> is a division of built-in floats and can raise, which is
  why it comes first here (the numpy operations before it in the source raise nothing).
\<close>

definition vel_calculation :: "Water \<Rightarrow> real \<Rightarrow> real \<Rightarrow> real \<Rightarrow> real \<Rightarrow> error + real" where
  "vel_calculation w diameter roughness max_spec_pressure_loss vel =
     bind_err (py_div roughness (3.7 * diameter)) (\<lambda>rel.
     bind_err (np_div (Water_density w * vel * diameter) (Water_dynamic_viscosity w)) (\<lambda>Re.
     bind_err (py_pow rel 1.11) (\<lambda>rel_pow.
     bind_err (np_div 6.9 Re) (\<lambda>t.
     bind_err (np_log10 (rel_pow + t)) (\<lambda>lg.
     bind_err (np_pow_minus2 (- 1.8 * lg)) (\<lambda>f.
     bind_err (np_div (2 * max_spec_pressure_loss * diameter) (f * Water_density w)) (\<lambda>q.
     bind_err (np_sqrt q) (\<lambda>s.
     Inr (vel - s)))))))))"

text \<open>
  \<^verbatim>\<open>scipy.optimize.fsolve\<close> first evaluates the residual at the initial guess, where an
  exception of the residual propagates to the caller. Then it runs MINPACK's \<^verbatim>\<open>hybrd\<close>
  iteration, which ends with an iterate and a status: 1 when it judges the iteration
  converged, 2 to 5 when it gave up (too many function calls, tolerance too small, no
  progress), anything else for improper input. The iteration itself is a parameter
  \<open>hybrd\<close> of the model. What \<^verbatim>\<open>fsolve\<close> makes of the status when called without
  \<^verbatim>\<open>full_output\<close>, as the module calls it, is modelled: it returns the iterate for status
  1, warns and returns the iterate for status 2 to 5, and raises \<^verbatim>\<open>TypeError\<close> otherwise.
\<close>

record fsolve_result =
  fsolve_x :: real
  fsolve_status :: int

type_synonym root_finder = "(real \<Rightarrow> error + real) \<Rightarrow> real \<Rightarrow> fsolve_result"

definition fsolve :: "root_finder \<Rightarrow> (real \<Rightarrow> error + real) \<Rightarrow> real \<Rightarrow> error + real" where
  "fsolve hybrd func x0 =
     bind_err (func x0) (\<lambda>_.
       let res = hybrd func x0 in
       if fsolve_status res = 0 then Inl TypeError
       else if fsolve_status res = 1 then Inr (fsolve_x res)
       else if fsolve_status res \<in> {2, 3, 4, 5} then Inr (fsolve_x res)
       else Inl TypeError)"

definition max_flow_velocity :: "root_finder \<Rightarrow> Water \<Rightarrow> real \<Rightarrow> real \<Rightarrow> real \<Rightarrow> real \<Rightarrow> error + real" where
  "max_flow_velocity hybrd w vel_init diameter roughness max_spec_pressure_loss =
     fsolve hybrd (vel_calculation w diameter roughness max_spec_pressure_loss) vel_init"

subsection \<open>Linear regression and rounding\<close>

text \<open>
  \<^verbatim>\<open>np.round(x, d)\<close> scales by \<open>10 ^ d\<close>, rounds to the nearest integer with ties going to
  the even one (\<open>rint\<close> above), and scales back.
\<close>

definition np_round :: "real \<Rightarrow> nat \<Rightarrow> real" where
  "np_round x decimals = of_int (rint (x * 10 ^ decimals)) / 10 ^ decimals"

text \<open>A number has at most \<open>d\<close> decimal places when \<open>x * 10 ^ d\<close> is an integer.\<close>

definition decimal_places :: "nat \<Rightarrow> real \<Rightarrow> bool" where
  "decimal_places d x = (of_int \<lfloor>x * 10 ^ d\<rfloor> = x * 10 ^ d)"

text \<open>
  \<^verbatim>\<open>scipy.stats.linregress(x, y)\<close>: the least-squares line through the points. It raises
  \<^verbatim>\<open>ValueError\<close> for empty input, for inputs of different lengths and when all \<open>x\<close> are
  identical; for a single point the slope is \<^verbatim>\<open>0 / 0\<close>.
\<close>

record linregress_result =
  slope :: real
  intercept :: real
  rvalue :: real

definition mean :: "real list \<Rightarrow> real" where
  "mean xs = sum_list xs / real (length xs)"

definition linregress :: "real list \<Rightarrow> real list \<Rightarrow> error + linregress_result" where
  "linregress xs ys =
    (if xs = [] \<or> ys = [] then Inl ValueError
     else if Max (set xs) = Min (set xs) \<and> length xs > 1 then Inl ValueError
     else if length xs \<noteq> length ys then Inl ValueError
     else
       let xmean = mean xs; ymean = mean ys;
           ssxm = mean (map (\<lambda>x. (x - xmean) * (x - xmean)) xs);
           ssxym = mean (map (\<lambda>(x, y). (x - xmean) * (y - ymean)) (zip xs ys));
           ssym = mean (map (\<lambda>y. (y - ymean) * (y - ymean)) ys);
           r = (if ssxm = 0 \<or> ssym = 0 then 0
                else let r0 = ssxym / sqrt (ssxm * ssym) in
                  if r0 > 1 then 1 else if r0 < - 1 then - 1 else r0)
       in bind_err (np_div ssxym ssxm) (\<lambda>sl.
            Inr \<lparr>slope = sl, intercept = ymean - sl * xmean, rvalue = r\<rparr>))"

subsection \<open>Regressions over the catalog\<close>

text \<open>
  A loop or an elementwise array operation whose body can fail: the first failure is the
  result. In an array operation numpy raises nothing where built-in floats would raise
  \<^verbatim>\<open>ZeroDivisionError\<close>; it stores \<^verbatim>\<open>inf\<close> or \<^verbatim>\<open>nan\<close>, which then reaches the regression
  coefficients. \<open>NotReal\<close> as the result of a regression stands for that.
\<close>

primrec map_err :: "('a \<Rightarrow> error + 'b) \<Rightarrow> 'a list \<Rightarrow> error + 'b list" where
  "map_err f [] = Inr []"
| "map_err f (x # xs) =
     bind_err (f x) (\<lambda>y. bind_err (map_err f xs) (\<lambda>ys. Inr (y # ys)))"

definition np_elem :: "error + real \<Rightarrow> error + real" where
  "np_elem r = (case r of Inl e \<Rightarrow> (if e = ZeroDivisionError then Inl NotReal else Inl e) | Inr v \<Rightarrow> Inr v)"

record regression_params =
  params_a :: real
  params_b :: real
  params_r2 :: real

record thermal_capacity =
  mass_flow_max :: "real list"
  power_flow_max :: "real list"
  params :: regression_params
  power_flow_max_kW :: "real list"
  power_flow_max_partload :: real

record heat_losses =
  heat_loss :: "real list"
  factors :: regression_params

definition V_INIT :: real where
  "V_INIT = 0.5"

text \<open>
  The loop over \<^verbatim>\<open>Piping.diameter\<close> that fills \<^verbatim>\<open>velocity_max\<close>. Each \<^verbatim>\<open>diam\<close> is an
  element of a numpy array, so the residual follows numpy in all its operations.
\<close>

definition velocity_max :: "root_finder \<Rightarrow> Water \<Rightarrow> Piping \<Rightarrow> error + real list" where
  "velocity_max hybrd w p =
     map_err (\<lambda>diam. np_elem (max_flow_velocity hybrd w V_INIT diam (Piping_roughness p)
                                 (Piping_max_pr_loss p)))
       (Piping_diameter p)"

definition regression_thermal_capacity ::
    "root_finder \<Rightarrow> Water \<Rightarrow> Piping \<Rightarrow> real \<Rightarrow> real \<Rightarrow> error + thermal_capacity" where
  "regression_thermal_capacity hybrd w p t_supply t_return =
     bind_err (velocity_max hybrd w p) (\<lambda>vmax.
       let m_max = map (\<lambda>(v, d). mass_flow w v d) (zip vmax (Piping_diameter p));
           p_max = map (\<lambda>m. pipe_capacity w m t_supply t_return) m_max
       in bind_err (linregress (map (\<lambda>x. x / 1000) p_max) (Piping_cost p)) (\<lambda>regression.
            Inr \<lparr>mass_flow_max = m_max,
                 power_flow_max = p_max,
                 params = \<lparr>params_a = np_round (slope regression) 6,
                            params_b = np_round (intercept regression) 3,
                            params_r2 = (rvalue regression)\<^sup>2\<rparr>,
                 power_flow_max_kW = map (\<lambda>x. np_round (x / 1000) 3) p_max,
                 power_flow_max_partload = 1\<rparr>))"

text \<open>
  The three arrays of an elementwise operation must have one length (numpy raises
  \<^verbatim>\<open>ValueError\<close> when shapes do not match; stretching a one-element array is not modelled).
\<close>

definition regression_heat_losses ::
    "Water \<Rightarrow> Ground \<Rightarrow> Piping \<Rightarrow> real \<Rightarrow> real \<Rightarrow> thermal_capacity \<Rightarrow> error + heat_losses" where
  "regression_heat_losses w g p t_supply t_ambient tc =
    (let pipe_depth = replicate (Piping_number_diameter p) (1::real);
         pipe_length = replicate (Piping_number_diameter p) (100::real);
         m_flow = mass_flow_max tc;
         maximal_power = power_flow_max tc
     in
     if length (Piping_ratio p) \<noteq> Piping_number_diameter p then Inl ValueError
     else
     bind_err (map_err (\<lambda>(d, r, depth). np_elem (thermal_resistance g p d r depth))
                 (zip (Piping_diameter p) (zip (Piping_ratio p) pipe_depth))) (\<lambda>res_pipe.
     if length m_flow \<noteq> Piping_number_diameter p then Inl ValueError
     else
     bind_err (map_err (\<lambda>(m, len, res). np_elem (heat_loss_pipe w m len t_supply res t_ambient))
                 (zip m_flow (zip pipe_length res_pipe))) (\<lambda>h_loss.
     bind_err (linregress (map (\<lambda>x. x / 1000) maximal_power) (map (\<lambda>x. x / 1000) h_loss)) (\<lambda>regression.
       Inr \<lparr>heat_loss = h_loss,
            factors = \<lparr>params_a = np_round (slope regression) 10,
                       params_b = np_round (intercept regression) 6,
                       params_r2 = (rvalue regression)\<^sup>2\<rparr>\<rparr>))))"

subsection \<open>Example settings\<close>

text \<open>
  Settings used to run the functions on concrete inputs: water at about 70 degrees
  Celsius, moist soil, polyurethane insulation, and the three-diameter catalog of the
  specification's scenario.
\<close>

definition example_water :: Water where
  "example_water = \<lparr>Water_density = 977.76, Water_dynamic_viscosity = 0.0004041,
     Water_heat_capacity_cp = 4187\<rparr>"

definition example_ground :: Ground where
  "example_ground = \<lparr>Ground_thermal_conductivity = 2.4\<rparr>"

definition example_piping :: Piping where
  "example_piping = \<lparr>Piping_diameter = [0.05, 0.10, 0.15], Piping_ratio = [1.5, 1.5, 1.5],
     Piping_cost = [50, 80, 120], Piping_roughness = 0.001, Piping_max_pr_loss = 150,
     Piping_thermal_conductivity = 0.024\<rparr>"

text \<open>
  A stand-in for the root finder that ends at velocity \<open>v\<close> with status \<open>st\<close>, whatever
  the residual function and the initial guess.
\<close>

definition fixed_solver :: "real \<Rightarrow> int \<Rightarrow> root_finder" where
  "fixed_solver v st = (\<lambda>func x0. \<lparr>fsolve_x = v, fsolve_status = st\<rparr>)"

text \<open>
  A stand-in for an iteration that makes no progress from the initial guess and gives up
  with status 5, and the example catalog with a pressure-loss budget of \<open>10 ^ 12\<close> Pa/m,
  for which the root finder does not converge from 0.5 m/s.
\<close>

definition stalled_solver :: root_finder where
  "stalled_solver = (\<lambda>func x0. \<lparr>fsolve_x = x0, fsolve_status = 5\<rparr>)"

definition high_pressure_piping :: Piping where
  "high_pressure_piping = example_piping\<lparr>Piping_max_pr_loss := 10 ^ 12\<rparr>"

text \<open>
  A catalog of two pipes, a thin one with thick insulation and a wide one with thin
  insulation, and the capacities of mass flows of 1 and 1000 kg/s at 80 and 55 degrees
  Celsius of supply and return temperature, as input of the heat-loss regression.
\<close>

definition two_pipe_catalog :: Piping where
  "two_pipe_catalog = \<lparr>Piping_diameter = [0.05, 0.4], Piping_ratio = [4, 1.25],
     Piping_cost = [100, 1000], Piping_roughness = 0.001, Piping_max_pr_loss = 150,
     Piping_thermal_conductivity = 0.024\<rparr>"

definition two_pipe_capacity :: thermal_capacity where
  "two_pipe_capacity = \<lparr>mass_flow_max = [1, 1000],
     power_flow_max = [104675, 104675000],
     params = \<lparr>params_a = 0.008607, params_b = 99.099, params_r2 = 1\<rparr>,
     power_flow_max_kW = [104.675, 104675],
     power_flow_max_partload = 1\<rparr>"

subsection \<open>Closed forms\<close>

text \<open>The interpolation line of the control curve, extended to every ambient temperature.\<close>

definition feed_line_interp :: "real \<Rightarrow> real \<Rightarrow> real \<Rightarrow> real \<Rightarrow> real \<Rightarrow> real" where
  "feed_line_interp T sh sl tth ttl = sh - ((T - tth) / (ttl - tth)) * (sh - sl)"

text \<open>The value \<^verbatim>\<open>heat_loss_pipe\<close> returns when none of its divisions fails.\<close>

definition heat_loss_value :: "Water \<Rightarrow> real \<Rightarrow> real \<Rightarrow> real \<Rightarrow> real \<Rightarrow> real \<Rightarrow> real" where
  "heat_loss_value w m len t_in r t_amb =
     m * Water_heat_capacity_cp w *
       (t_in - ((t_in - t_amb) * exp (- len / (m * Water_heat_capacity_cp w * r)) + t_amb)) / len"

section \<open>Basic facts\<close>

lemma bind_err_Inr: "bind_err (Inr v) f = f v"
  by (simp add: bind_err_def)

lemma bind_err_Inl: "bind_err (Inl e) f = Inl e"
  by (simp add: bind_err_def)

lemma bind_err_eq_Inr: "bind_err m f = Inr r \<longleftrightarrow> (\<exists>v. m = Inr v \<and> f v = Inr r)"
  by (cases m) (simp_all add: bind_err_def)

lemma np_elem_Inr: "np_elem (Inr v) = Inr v"
  by (simp add: np_elem_def)

lemma map_err_all_Inr:
  assumes "\<forall>x \<in> set xs. f x = Inr (g x)"
  shows "map_err f xs = Inr (map g xs)"
  using assms by (induction xs) (simp_all add: bind_err_Inr)

lemma map_err_Inl:
  assumes "map_err f xs = Inl e"
  shows "\<exists>x \<in> set xs. f x = Inl e"
  using assms
proof (induction xs)
  case Nil
  then show ?case by simp
next
  case (Cons x xs)
  show ?case
  proof (cases "f x")
    case (Inl e')
    then show ?thesis using Cons.prems by (simp add: bind_err_Inl)
  next
    case (Inr y)
    then have "map_err f xs = Inl e"
      using Cons.prems by (cases "map_err f xs") (simp_all add: bind_err_Inr bind_err_Inl)
    then show ?thesis using Cons.IH by auto
  qed
qed

section \<open>The control curve\<close>

lemma feed_line_clamp:
  assumes "tth < ttl" "sl \<le> sh"
  shows "determine_feed_line_temp T sh sl tth ttl = Inr (max sl (min sh (feed_line_interp T sh sl tth ttl)))"
proof -
  have d: "0 < ttl - tth" using assms by simp
  consider "T < tth" | "tth \<le> T" "T \<le> ttl" | "ttl < T" by linarith
  then show ?thesis
  proof cases
    case 1
    then have "(T - tth) / (ttl - tth) \<le> 0" using d by (simp add: divide_le_0_iff)
    then have "((T - tth) / (ttl - tth)) * (sh - sl) \<le> 0" using assms(2) by (intro mult_nonpos_nonneg) simp_all
    then have "sh \<le> feed_line_interp T sh sl tth ttl" by (simp add: feed_line_interp_def)
    then show ?thesis using 1 assms by (simp add: determine_feed_line_temp_def)
  next
    case 2
    have q0: "0 \<le> (T - tth) / (ttl - tth)" using 2 d by simp
    have q1: "(T - tth) / (ttl - tth) \<le> 1" using 2 d by simp
    have "((T - tth) / (ttl - tth)) * (sh - sl) \<le> 1 * (sh - sl)"
      using q1 assms(2) by (intro mult_right_mono) simp_all
    moreover have "0 \<le> ((T - tth) / (ttl - tth)) * (sh - sl)" using q0 assms(2) by (intro mult_nonneg_nonneg) simp_all
    ultimately have "sl \<le> feed_line_interp T sh sl tth ttl" "feed_line_interp T sh sl tth ttl \<le> sh"
      by (simp_all add: feed_line_interp_def)
    then show ?thesis using 2 d
      by (simp add: determine_feed_line_temp_def py_div_def bind_err_def feed_line_interp_def)
  next
    case 3
    then have "1 \<le> (T - tth) / (ttl - tth)" using d by simp
    then have "1 * (sh - sl) \<le> ((T - tth) / (ttl - tth)) * (sh - sl)"
      using assms(2) by (intro mult_right_mono) simp_all
    then have "feed_line_interp T sh sl tth ttl \<le> sl" by (simp add: feed_line_interp_def)
    then show ?thesis using 3 assms by (simp add: determine_feed_line_temp_def)
  qed
qed

lemma feed_line_interp_antimono:
  assumes "tth < ttl" "sl \<le> sh" "T1 \<le> T2"
  shows "feed_line_interp T2 sh sl tth ttl \<le> feed_line_interp T1 sh sl tth ttl"
proof -
  have "(T1 - tth) / (ttl - tth) \<le> (T2 - tth) / (ttl - tth)"
    using assms by (simp add: divide_right_mono)
  then have "((T1 - tth) / (ttl - tth)) * (sh - sl) \<le> ((T2 - tth) / (ttl - tth)) * (sh - sl)"
    using assms(2) by (intro mult_right_mono) simp_all
  then show ?thesis by (simp add: feed_line_interp_def)
qed

lemma feed_line_interp_continuous:
  "continuous_on UNIV (\<lambda>T. max sl (min sh (feed_line_interp T sh sl tth ttl)))"
  unfolding feed_line_interp_def divide_inverse by (intro continuous_intros)

text \<open>
  In exact arithmetic, for a regime with \<open>temp_turn_high < temp_turn_low\<close> and
  \<open>temp_sup_low \<le> temp_sup_high\<close>, the curve is \<open>temp_sup_high\<close> for every ambient
  temperature up to \<open>temp_turn_high\<close>, \<open>temp_sup_low\<close> from \<open>temp_turn_low\<close> on, and the linear
  interpolation in between; it never fails, and it is continuous and non-increasing. This
  is the curve the three branches are written for; the doubles of the program miss it at
  the upper turning point, see below.
\<close>

theorem determine_feed_line_temp_curve:
  assumes "temp_turn_high < temp_turn_low" and "temp_sup_low \<le> temp_sup_high"
  shows "(\<forall>T. T \<le> temp_turn_high \<longrightarrow>
            determine_feed_line_temp T temp_sup_high temp_sup_low temp_turn_high temp_turn_low
              = Inr temp_sup_high)
       \<and> (\<forall>T. temp_turn_low \<le> T \<longrightarrow>
            determine_feed_line_temp T temp_sup_high temp_sup_low temp_turn_high temp_turn_low
              = Inr temp_sup_low)
       \<and> (\<forall>T. temp_turn_high \<le> T \<and> T \<le> temp_turn_low \<longrightarrow>
            determine_feed_line_temp T temp_sup_high temp_sup_low temp_turn_high temp_turn_low
              = Inr (temp_sup_high - ((T - temp_turn_high) / (temp_turn_low - temp_turn_high))
                       * (temp_sup_high - temp_sup_low)))
       \<and> (\<forall>T. \<not> isl (determine_feed_line_temp T temp_sup_high temp_sup_low temp_turn_high temp_turn_low))
       \<and> continuous_on UNIV
            (\<lambda>T. projr (determine_feed_line_temp T temp_sup_high temp_sup_low temp_turn_high temp_turn_low))
       \<and> (\<forall>T1 T2. T1 \<le> T2 \<longrightarrow>
            projr (determine_feed_line_temp T2 temp_sup_high temp_sup_low temp_turn_high temp_turn_low)
            \<le> projr (determine_feed_line_temp T1 temp_sup_high temp_sup_low temp_turn_high temp_turn_low))"
proof (intro conjI allI impI)
  fix T assume "T \<le> temp_turn_high"
  then show "determine_feed_line_temp T temp_sup_high temp_sup_low temp_turn_high temp_turn_low
              = Inr temp_sup_high"
    using assms by (simp add: determine_feed_line_temp_def py_div_def bind_err_def)
next
  fix T assume "temp_turn_low \<le> T"
  then show "determine_feed_line_temp T temp_sup_high temp_sup_low temp_turn_high temp_turn_low
              = Inr temp_sup_low"
    using assms by (simp add: determine_feed_line_temp_def py_div_def bind_err_def)
next
  fix T assume "temp_turn_high \<le> T \<and> T \<le> temp_turn_low"
  then show "determine_feed_line_temp T temp_sup_high temp_sup_low temp_turn_high temp_turn_low
              = Inr (temp_sup_high - ((T - temp_turn_high) / (temp_turn_low - temp_turn_high))
                       * (temp_sup_high - temp_sup_low))"
    using assms by (simp add: determine_feed_line_temp_def py_div_def bind_err_def)
next
  fix T show "\<not> isl (determine_feed_line_temp T temp_sup_high temp_sup_low temp_turn_high temp_turn_low)"
    by (simp add: feed_line_clamp[OF assms])
next
  show "continuous_on UNIV
            (\<lambda>T. projr (determine_feed_line_temp T temp_sup_high temp_sup_low temp_turn_high temp_turn_low))"
    by (simp add: feed_line_clamp[OF assms] feed_line_interp_continuous)
next
  fix T1 T2 :: real assume "T1 \<le> T2"
  then have "feed_line_interp T2 temp_sup_high temp_sup_low temp_turn_high temp_turn_low
      \<le> feed_line_interp T1 temp_sup_high temp_sup_low temp_turn_high temp_turn_low"
    using assms by (intro feed_line_interp_antimono)
  then show "projr (determine_feed_line_temp T2 temp_sup_high temp_sup_low temp_turn_high temp_turn_low)
            \<le> projr (determine_feed_line_temp T1 temp_sup_high temp_sup_low temp_turn_high temp_turn_low)"
    unfolding feed_line_clamp[OF assms] sum.sel by (intro max.mono min.mono) simp_all
qed

theorem determine_feed_line_temp_curve_witness:
  "determine_feed_line_temp (- 10) 90 70 (- 5) 10 = Inr 90
   \<and> determine_feed_line_temp (- 5) 90 70 (- 5) 10 = Inr 90
   \<and> determine_feed_line_temp 15 90 70 (- 5) 10 = Inr 70
   \<and> determine_feed_line_temp 10 90 70 (- 5) 10 = Inr 70
   \<and> determine_feed_line_temp 1 90 70 (- 5) 10 = Inr 82
   \<and> projr (determine_feed_line_temp 4 90 70 (- 5) 10)
       \<le> projr (determine_feed_line_temp 1 90 70 (- 5) 10)
   \<and> continuous_on UNIV (\<lambda>T. projr (determine_feed_line_temp T 90 70 (- 5) 10))"
proof -
  have h1: "(- 5 :: real) < 10" and h2: "(70 :: real) \<le> 90" by simp_all
  show ?thesis using determine_feed_line_temp_curve [OF h1 h2] by simp
qed

subsection \<open>The control curve in doubles\<close>

lemma binade_eq:
  assumes "2 ^ n \<le> \<bar>x\<bar>" and "\<bar>x\<bar> < 2 ^ Suc n"
  shows "binade x = int n"
proof -
  have "(0::real) < 2 ^ n" by simp
  then have pos: "0 < \<bar>x\<bar>" using assms(1) by linarith
  have a: "2 powr (of_int (int n)) \<le> \<bar>x\<bar>" using assms(1) by (simp add: powr_realpow)
  have "(2::real) powr (of_int (int n + 1)) = 2 ^ Suc n"
    by (simp add: powr_realpow powr_add)
  then have b: "\<bar>x\<bar> < 2 powr (of_int (int n + 1))" using assms(2) by simp
  have "\<lfloor>log 2 \<bar>x\<bar>\<rfloor> = int n \<longleftrightarrow> 2 powr (of_int (int n)) \<le> \<bar>x\<bar> \<and> \<bar>x\<bar> < 2 powr (of_int (int n + 1))"
    using pos by (intro floor_log_eq_powr_iff) simp_all
  then show ?thesis unfolding binade_def using a b by blast
qed

lemma fl_eval:
  assumes "2 ^ n \<le> \<bar>x\<bar>" and "\<bar>x\<bar> < 2 ^ Suc n" and "n \<le> 52"
  shows "fl x = of_int (rint (x * 2 ^ (52 - n))) / 2 ^ (52 - n)"
proof -
  define m where "m = 52 - n"
  have "(0::real) < 2 ^ n" by simp
  then have nz: "x \<noteq> 0" using assms(1) by linarith
  have "real n + real m = 52" using assms(3) unfolding m_def by linarith
  then have e: "real_of_int (int n) - 52 = - real m" by simp
  have "(2::real) powr (- real m) = inverse (2 powr real m)" by (rule powr_minus)
  also have "\<dots> = inverse (2 ^ m)" by (simp only: powr_realpow zero_less_numeral)
  finally have u: "(2::real) powr (real_of_int (binade x) - 52) = inverse (2 ^ m)"
    unfolding binade_eq [OF assms(1,2)] e .
  have "fl x = of_int (rint (x / inverse (2 ^ m))) * inverse (2 ^ m)"
    unfolding fl_def Let_def u using nz by (simp only: if_False)
  then show ?thesis unfolding m_def by (simp only: divide_inverse inverse_inverse_eq)
qed

lemma rint_nearest:
  assumes "of_int k - 1 / 2 < x" and "x < of_int k + 1 / 2"
  shows "rint x = k"
proof -
  consider "of_int k \<le> x" | "x < of_int k" by linarith
  then show ?thesis
  proof cases
    case 1
    then have "\<lfloor>x\<rfloor> = k" using assms(2) by linarith
    then show ?thesis using assms(2) by (simp add: rint_def Let_def)
  next
    case 2
    then have f: "\<lfloor>x\<rfloor> = k - 1" using assms(1) by linarith
    then show ?thesis using assms(1) by (simp add: rint_def Let_def)
  qed
qed

lemma rint_tie:
  assumes "x = of_int k + 1 / 2"
  shows "rint x = (if even k then k else k + 1)"
proof -
  have "\<lfloor>x\<rfloor> = k" unfolding assms by linarith
  then show ?thesis unfolding assms by (simp add: rint_def Let_def)
qed

lemma rint_of_int: "rint (of_int k) = k"
  by (rule rint_nearest) simp_all

lemma fl_62_9: "fl 62.9 = 8852388017550131 / 2 ^ 47"
proof -
  have "rint (62.9 * 2 ^ (52 - 5)) = 8852388017550131"
    by (rule rint_nearest) simp_all
  then show ?thesis by (subst fl_eval [where n = 5]) simp_all
qed

lemma fl_30_7: "fl 30.7 = 8641281785017139 / 2 ^ 48"
proof -
  have "rint (30.7 * 2 ^ (52 - 4)) = 8641281785017139"
    by (rule rint_nearest) simp_all
  then show ?thesis by (subst fl_eval [where n = 4]) simp_all
qed

lemma fl_exact:
  assumes "2 ^ n \<le> \<bar>x\<bar>" and "\<bar>x\<bar> < 2 ^ Suc n" and "n \<le> 52"
    and "x * 2 ^ (52 - n) = of_int k"
  shows "fl x = x"
proof -
  have "fl x = of_int k / 2 ^ (52 - n)"
    unfolding fl_eval [OF assms(1,2,3)] assms(4) rint_of_int ..
  also have "\<dots> = x" unfolding assms(4) [symmetric] by simp
  finally show ?thesis .
qed

lemma fl_15: "fl 15 = 15"
  by (rule fl_exact [where n = 3 and k = "15 * 2 ^ 49"]) simp_all

lemma fl_1: "fl 1 = 1"
  by (rule fl_exact [where n = 0 and k = "2 ^ 52"]) simp_all

lemma fl_difference: "fl (8852388017550131 / 2 ^ 47 - 8641281785017139 / 2 ^ 48) = 4531747125041562 / 2 ^ 47"
proof -
  have "rint ((8852388017550131 / 2 ^ 47 - 8641281785017139 / 2 ^ 48) * 2 ^ (52 - 5))
      = (if even (4531747125041561::int) then 4531747125041561 else 4531747125041561 + 1)"
    by (rule rint_tie) simp
  then have "rint ((8852388017550131 / 2 ^ 47 - 8641281785017139 / 2 ^ 48) * 2 ^ (52 - 5))
      = 4531747125041562" by simp
  then show ?thesis by (subst fl_eval [where n = 5]) simp_all
qed

lemma fl_product: "fl (1 * (4531747125041562 / 2 ^ 47)) = 4531747125041562 / 2 ^ 47"
proof -
  have "fl (4531747125041562 / 2 ^ 47) = 4531747125041562 / 2 ^ 47"
    by (rule fl_exact [where n = 5 and k = 4531747125041562]) simp_all
  then show ?thesis by (simp only: mult_1)
qed

lemma fl_result: "fl (8852388017550131 / 2 ^ 47 - 4531747125041562 / 2 ^ 47) = 8641281785017138 / 2 ^ 48"
proof -
  have "fl (8852388017550131 / 2 ^ 47 - 4531747125041562 / 2 ^ 47)
      = 8852388017550131 / 2 ^ 47 - 4531747125041562 / 2 ^ 47"
    by (rule fl_exact [where n = 4 and k = 8641281785017138]) simp_all
  then show ?thesis by simp
qed

text \<open>
  Claim C1 fails on the program. With the supply temperatures 62.9 and 30.7 and the
  turning points -5 and 10, the ambient temperature 10 (the upper turning point) takes
  the interpolation branch, where \<open>62.9 - 30.7\<close> is rounded and \<open>62.9 - (62.9 - 30.7)\<close>
  comes out one unit in the last place below 30.7; one degree further the last branch
  returns 30.7 itself. So the value at the upper turning point is not \<open>temp_sup_low\<close>, and
  the curve rises behind it.
\<close>

theorem determine_feed_line_temp_below_supply_low:
  "determine_feed_line_temp_double 10 (fl 62.9) (fl 30.7) (- 5) 10 = Inr (fl 30.7 - 1 / 2 ^ 48)
   \<and> determine_feed_line_temp_double 10 (fl 62.9) (fl 30.7) (- 5) 10 \<noteq> Inr (fl 30.7)
   \<and> determine_feed_line_temp_double 11 (fl 62.9) (fl 30.7) (- 5) 10 = Inr (fl 30.7)"
proof -
  have "determine_feed_line_temp_double 10 (fl 62.9) (fl 30.7) (- 5) 10
      = Inr (fl (fl 62.9 - fl (fl 1 * fl (fl 62.9 - fl 30.7))))"
    by (simp add: determine_feed_line_temp_double_def py_div_def bind_err_Inr fl_15)
  also have "\<dots> = Inr (8641281785017138 / 2 ^ 48)"
    unfolding fl_62_9 fl_30_7 fl_1 fl_difference fl_product fl_result ..
  also have "\<dots> = Inr (fl 30.7 - 1 / 2 ^ 48)" unfolding fl_30_7 by simp
  finally have 1: "determine_feed_line_temp_double 10 (fl 62.9) (fl 30.7) (- 5) 10
      = Inr (fl 30.7 - 1 / 2 ^ 48)" .
  have 2: "determine_feed_line_temp_double 11 (fl 62.9) (fl 30.7) (- 5) 10 = Inr (fl 30.7)"
    by (simp add: determine_feed_line_temp_double_def)
  have 3: "determine_feed_line_temp_double 10 (fl 62.9) (fl 30.7) (- 5) 10 \<noteq> Inr (fl 30.7)"
    unfolding 1 by simp
  show ?thesis using 1 3 2 by (intro conjI)
qed

subsection \<open>Equal turning points\<close>

text \<open>
  Claim C10. When the two turning points are equal and the ambient temperature equals
  them, the first test fails, the second holds, and the interpolation divides by
  \<open>temp_turn_low - temp_turn_high = 0\<close>: no supply temperature is returned.
\<close>

theorem determine_feed_line_temp_equal_turning_points:
  "determine_feed_line_temp t temp_sup_high temp_sup_low t t = Inl ZeroDivisionError"
  by (simp add: determine_feed_line_temp_def py_div_def bind_err_def)

section \<open>Mass flow and thermal capacity\<close>

text \<open>
  Claim C4. For a non-zero heat capacity of water and \<open>temperature_supply \<noteq> temperature_return\<close>,
  \<open>capacity_to_diameter\<close> undoes \<open>pipe_capacity\<close> for every mass flow, on built-in floats and
  on numpy values alike.
\<close>

theorem capacity_roundtrip:
  assumes "Water_heat_capacity_cp w \<noteq> 0" and "temperature_supply \<noteq> temperature_return"
  shows "capacity_to_diameter w kind (pipe_capacity w m temperature_supply temperature_return)
           temperature_supply temperature_return = Inr m"
  using assms
  by (cases kind) (simp_all add: capacity_to_diameter_def float_div_def pipe_capacity_def
      py_div_def np_div_def)

theorem capacity_roundtrip_witness:
  "capacity_to_diameter example_water BuiltinFloat (pipe_capacity example_water 3 80 50) 80 50 = Inr 3
   \<and> capacity_to_diameter example_water NumpyFloat (pipe_capacity example_water 3 80 50) 80 50
       = Inr 3"
  using capacity_roundtrip [of example_water 80 50 BuiltinFloat 3]
    capacity_roundtrip [of example_water 80 50 NumpyFloat 3]
  by (simp add: example_water_def)

text \<open>
  Claim C8, as stated, fails: with equal supply and return temperature the function does
  not end in a \<open>DomainError\<close>. On built-in floats the division raises
  \<open>ZeroDivisionError\<close>; on a numpy capacity it raises nothing and returns \<^verbatim>\<open>inf\<close>.
\<close>

theorem capacity_to_diameter_no_domain_error:
  "capacity_to_diameter example_water BuiltinFloat 1000 50 50 \<noteq> Inl DomainError
   \<and> capacity_to_diameter example_water BuiltinFloat 1000 50 50 = Inl ZeroDivisionError
   \<and> capacity_to_diameter example_water NumpyFloat 1000 50 50 \<noteq> Inl DomainError
   \<and> capacity_to_diameter example_water NumpyFloat 1000 50 50 = Inl NotReal"
  by (simp add: capacity_to_diameter_def float_div_def py_div_def np_div_def)

text \<open>
  Claim C8, amended. With equal supply and return temperature the unguarded division of
  \<open>capacity_to_diameter\<close> has a zero divisor, whatever the capacity and the heat capacity
  of water: on built-in floats this is Python's \<open>ZeroDivisionError\<close>, with a numpy operand
  nothing is raised and the result is \<^verbatim>\<open>inf\<close> or \<^verbatim>\<open>nan\<close>. A \<open>DomainError\<close> is raised in
  neither case.
\<close>

theorem capacity_to_diameter_equal_temperatures:
  "capacity_to_diameter w BuiltinFloat capacity t t = Inl ZeroDivisionError
   \<and> capacity_to_diameter w NumpyFloat capacity t t = Inl NotReal
   \<and> capacity_to_diameter w kind capacity t t \<noteq> Inl DomainError"
  by (cases kind) (simp_all add: capacity_to_diameter_def float_div_def py_div_def np_div_def)

section \<open>Thermal resistance\<close>

lemma thermal_resistance_value:
  assumes "diameter * diameter_ratio \<noteq> 0" "0 < 4 * depth / (diameter * diameter_ratio)"
    "0 < diameter_ratio" "Ground_thermal_conductivity g \<noteq> 0" "Piping_thermal_conductivity p \<noteq> 0"
  shows "thermal_resistance g p diameter diameter_ratio depth =
     Inr (ln diameter_ratio / (2 * pi * Piping_thermal_conductivity p)
          + ln (4 * depth / (diameter * diameter_ratio)) / (2 * pi * Ground_thermal_conductivity g))"
  using assms
  by (simp add: thermal_resistance_def Let_def py_div_def np_log_def np_div_def bind_err_def)

text \<open>
  Claim C5. For positive diameter, diameter ratio and depth with
  \<open>diameter * diameter_ratio < 4 * depth\<close> (and positive thermal conductivities of ground and
  insulation), \<open>thermal_resistance\<close> returns the ground resistance of the buried cylinder
  plus the insulation resistance.
\<close>

theorem thermal_resistance_formula:
  assumes "0 < diameter" "0 < diameter_ratio" "0 < depth"
    and "diameter * diameter_ratio < 4 * depth"
    and "0 < Ground_thermal_conductivity g" "0 < Piping_thermal_conductivity p"
  shows "thermal_resistance g p diameter diameter_ratio depth =
     Inr (ln (4 * depth / (diameter * diameter_ratio)) / (2 * pi * Ground_thermal_conductivity g)
          + ln diameter_ratio / (2 * pi * Piping_thermal_conductivity p))"
proof -
  have nz: "diameter * diameter_ratio \<noteq> 0" using assms(1,2) by simp
  have pos: "0 < 4 * depth / (diameter * diameter_ratio)"
    using assms(1,2,3) by simp
  have kg: "Ground_thermal_conductivity g \<noteq> 0" and kp: "Piping_thermal_conductivity p \<noteq> 0"
    using assms(5,6) by simp_all
  show ?thesis
    unfolding thermal_resistance_value [OF nz pos assms(2) kg kp] by (simp add: add.commute)
qed

theorem thermal_resistance_formula_witness:
  "thermal_resistance example_ground example_piping (1/10) (3/2) 1 =
     Inr (ln (4 / (3/20)) / (2 * pi * 2.4) + ln (3/2) / (2 * pi * 0.024))"
  using thermal_resistance_formula [of "1/10" "3/2" 1 example_ground example_piping]
  by (simp add: example_ground_def example_piping_def)

text \<open>
  Claim C6, as stated, fails: for diameter 1 m, ratio 1.5 and depth 0.1 m the function
  raises nothing. It returns a sum whose ground term is negative.
\<close>

theorem thermal_resistance_shallow_burial_returns:
  "thermal_resistance example_ground example_piping 1 1.5 0.1 \<noteq> Inl DomainError
   \<and> thermal_resistance example_ground example_piping 1 1.5 0.1 =
       Inr (ln 1.5 / (2 * pi * 0.024) + ln (4 * 0.1 / (1 * 1.5)) / (2 * pi * 2.4))
   \<and> ln (4 * 0.1 / (1 * 1.5)) / (2 * pi * 2.4) < (0::real)"
proof -
  have "thermal_resistance example_ground example_piping 1 1.5 0.1 =
       Inr (ln 1.5 / (2 * pi * 0.024) + ln (4 * 0.1 / (1 * 1.5)) / (2 * pi * 2.4))"
    by (simp add: thermal_resistance_value example_ground_def example_piping_def)
  moreover have "ln (4 * 0.1 / (1 * 1.5)) / (2 * pi * 2.4) < (0::real)"
    by (simp add: divide_neg_pos)
  ultimately show ?thesis by simp
qed

text \<open>
  Claim C6, amended. \<open>thermal_resistance\<close> does not check \<open>outer_diameter < 4 * depth\<close>: for
  positive diameter, ratio and depth (and positive conductivities) it returns the sum of
  insulation and ground term, and for \<open>4 * depth < outer_diameter\<close> the ground term of that
  sum is negative.
\<close>

theorem thermal_resistance_unchecked:
  assumes "0 < diameter" "0 < diameter_ratio" "0 < depth"
    and "0 < Ground_thermal_conductivity g" "0 < Piping_thermal_conductivity p"
  shows "thermal_resistance g p diameter diameter_ratio depth =
     Inr (ln diameter_ratio / (2 * pi * Piping_thermal_conductivity p)
          + ln (4 * depth / (diameter * diameter_ratio)) / (2 * pi * Ground_thermal_conductivity g))
    \<and> (4 * depth < diameter * diameter_ratio \<longrightarrow>
         ln (4 * depth / (diameter * diameter_ratio)) / (2 * pi * Ground_thermal_conductivity g) < 0)"
proof -
  have pos: "0 < 4 * depth / (diameter * diameter_ratio)" using assms(1,2,3) by simp
  have nz: "diameter * diameter_ratio \<noteq> 0" using assms(1,2) by simp
  have kg: "Ground_thermal_conductivity g \<noteq> 0" and kp: "Piping_thermal_conductivity p \<noteq> 0"
    using assms(4,5) by simp_all
  note v = thermal_resistance_value [OF nz pos assms(2) kg kp]
  have "ln (4 * depth / (diameter * diameter_ratio)) / (2 * pi * Ground_thermal_conductivity g) < 0"
    if "4 * depth < diameter * diameter_ratio"
  proof -
    have "4 * depth / (diameter * diameter_ratio) < 1" using that assms(1,2) by simp
    then have "ln (4 * depth / (diameter * diameter_ratio)) < 0" using pos by simp
    moreover have "0 < 2 * pi * Ground_thermal_conductivity g" using assms(4) by simp
    ultimately show ?thesis by (rule divide_neg_pos)
  qed
  then show ?thesis using v by simp
qed

theorem thermal_resistance_unchecked_witness:
  "thermal_resistance example_ground example_piping 1 (3/2) (1/10) =
     Inr (ln (3/2) / (2 * pi * 0.024) + ln (4 * (1/10) / (1 * (3/2))) / (2 * pi * 2.4))
   \<and> ln (4 * (1/10) / (1 * (3/2))) / (2 * pi * 2.4) < (0::real)"
  using thermal_resistance_unchecked [of 1 "3/2" "1/10" example_ground example_piping]
  by (simp add: example_ground_def example_piping_def)

section \<open>Heat loss\<close>

lemma heat_loss_pipe_value:
  assumes "m * Water_heat_capacity_cp w * r \<noteq> 0" "len \<noteq> 0"
  shows "heat_loss_pipe w m len t_in r t_amb = Inr (heat_loss_value w m len t_in r t_amb)"
  using assms
  by (simp add: heat_loss_pipe_def heat_loss_value_def Let_def py_div_def np_div_def bind_err_def)

lemma heat_loss_value_decreasing:
  assumes cp: "0 < Water_heat_capacity_cp w" and m: "0 < m" and len: "0 < len"
    and dt: "0 < t_in - t_amb" and r: "0 < r1" "r1 < r2"
  shows "heat_loss_value w m len t_in r2 t_amb < heat_loss_value w m len t_in r1 t_amb"
proof -
  let ?k = "m * Water_heat_capacity_cp w"
  have k: "0 < ?k" using cp m by simp
  have ab: "?k * r1 < ?k * r2" using r(2) k by (rule mult_strict_left_mono)
  have a0: "0 < ?k * r1" using k r(1) by (rule mult_pos_pos)
  have b0: "0 < ?k * r2" using a0 ab by linarith
  have "len / (?k * r2) < len / (?k * r1)"
    by (rule divide_strict_left_mono [OF ab len mult_pos_pos [OF b0 a0]])
  then have e: "exp (- len / (?k * r1)) < exp (- len / (?k * r2))" by simp
  have "(t_in - t_amb) * exp (- len / (?k * r1)) < (t_in - t_amb) * exp (- len / (?k * r2))"
    using e dt by (rule mult_strict_left_mono)
  then have "t_in - ((t_in - t_amb) * exp (- len / (?k * r2)) + t_amb)
           < t_in - ((t_in - t_amb) * exp (- len / (?k * r1)) + t_amb)" by linarith
  then have "?k * (t_in - ((t_in - t_amb) * exp (- len / (?k * r2)) + t_amb))
           < ?k * (t_in - ((t_in - t_amb) * exp (- len / (?k * r1)) + t_amb))"
    using k by (rule mult_strict_left_mono)
  then show ?thesis unfolding heat_loss_value_def using len by (rule divide_strict_right_mono)
qed

text \<open>
  Claim C3. For positive mass flow, length and temperature difference (and a positive
  heat capacity of water), \<open>heat_loss_pipe\<close> returns a value for every positive thermal
  resistance, and a larger resistance gives a strictly smaller heat loss.
\<close>

theorem heat_loss_pipe_decreasing_in_resistance:
  assumes "0 < Water_heat_capacity_cp w" and "0 < m" and "0 < len"
    and "0 < temperature_in - ambient_temperature" and "0 < R1" and "R1 < R2"
  shows "\<exists>h1 h2. heat_loss_pipe w m len temperature_in R1 ambient_temperature = Inr h1
               \<and> heat_loss_pipe w m len temperature_in R2 ambient_temperature = Inr h2
               \<and> h2 < h1"
proof -
  have "m * Water_heat_capacity_cp w * R1 \<noteq> 0" "m * Water_heat_capacity_cp w * R2 \<noteq> 0" "len \<noteq> 0"
    using assms by simp_all
  then have "heat_loss_pipe w m len temperature_in R1 ambient_temperature
               = Inr (heat_loss_value w m len temperature_in R1 ambient_temperature)"
    and "heat_loss_pipe w m len temperature_in R2 ambient_temperature
               = Inr (heat_loss_value w m len temperature_in R2 ambient_temperature)"
    by (simp_all add: heat_loss_pipe_value)
  then show ?thesis using heat_loss_value_decreasing [OF assms] by simp
qed

theorem heat_loss_pipe_decreasing_in_resistance_witness:
  "\<exists>h1 h2. heat_loss_pipe example_water 2 100 80 3 10 = Inr h1
         \<and> heat_loss_pipe example_water 2 100 80 4 10 = Inr h2 \<and> h2 < h1"
  using heat_loss_pipe_decreasing_in_resistance [of example_water 2 100 80 10 3 4]
  by (simp add: example_water_def)

section \<open>Rounding\<close>

lemma rint_lower: "x - 1 / 2 \<le> of_int (rint x)"
  unfolding rint_def Let_def by (auto; linarith)

lemma rint_upper: "of_int (rint x) \<le> x + 1 / 2"
  unfolding rint_def Let_def by (auto; linarith)

lemma decimal_places_np_round: "decimal_places d (np_round x d)"
  by (simp add: decimal_places_def np_round_def)

lemma np_round_small_not_decimal:
  assumes lo: "1 / (2 * 10 ^ 10) < s" and hi: "s < 1 / 10 ^ 6 - 1 / (2 * 10 ^ 10)"
  shows "\<not> decimal_places 6 (np_round s 10)"
proof -
  define k where "k = rint (s * 10 ^ 10)"
  have "1 / 2 < s * 10 ^ 10" using lo by (simp add: field_simps)
  then have "0 < (of_int k :: real)" using rint_lower [of "s * 10 ^ 10"] unfolding k_def by linarith
  then have k1: "1 \<le> k" by simp
  have "s * 10 ^ 10 < 10000 - 1 / 2" using hi by (simp add: field_simps)
  then have "(of_int k :: real) < 10000" using rint_upper [of "s * 10 ^ 10"] unfolding k_def by linarith
  then have k2: "k < 10000" by simp
  have v: "np_round s 10 * 10 ^ 6 = of_int k / 10000" by (simp add: np_round_def k_def)
  have "0 < (of_int k :: real) / 10000" "(of_int k :: real) / 10000 < 1" using k1 k2 by simp_all
  then have "\<lfloor>(of_int k :: real) / 10000\<rfloor> = 0" by linarith
  then have "of_int \<lfloor>np_round s 10 * 10 ^ 6\<rfloor> \<noteq> np_round s 10 * 10 ^ 6"
    unfolding v using k1 by simp
  then show ?thesis by (simp add: decimal_places_def)
qed

section \<open>Least squares\<close>

lemma linregress_two_points:
  assumes "x1 \<noteq> x2"
  shows "\<exists>fit. linregress [x1, x2] [y1, y2] = Inr fit \<and> slope fit = (y2 - y1) / (x2 - x1)"
proof -
  have mm: "Max {x1, x2} \<noteq> Min {x1, x2}" using assms by (simp add: max_def min_def)
  have m: "mean [x1, x2] = (x1 + x2) / 2" "mean [y1, y2] = (y1 + y2) / 2"
    by (simp_all add: mean_def)
  have sx: "mean (map (\<lambda>x. (x - (x1 + x2) / 2) * (x - (x1 + x2) / 2)) [x1, x2]) = (x2 - x1)\<^sup>2 / 4"
    by (simp add: mean_def power2_eq_square field_simps)
  have sxy: "mean (map (\<lambda>(x, y). (x - (x1 + x2) / 2) * (y - (y1 + y2) / 2)) (zip [x1, x2] [y1, y2]))
      = (x2 - x1) * (y2 - y1) / 4"
    by (simp add: mean_def field_simps)
  have nz: "(x2 - x1)\<^sup>2 / 4 \<noteq> 0" using assms by simp
  have q: "((x2 - x1) * (y2 - y1) / 4) / ((x2 - x1)\<^sup>2 / 4) = (y2 - y1) / (x2 - x1)"
    using assms by (simp add: power2_eq_square)
  show ?thesis
    unfolding linregress_def Let_def m sx sxy using mm nz q
    by (simp add: np_div_def bind_err_def)
qed

lemma linregress_returns:
  assumes len: "length xs = length ys" and a: "a \<in> set xs" and b: "b \<in> set xs" and ab: "a < b"
  shows "\<exists>fit. linregress xs ys = Inr fit"
proof -
  have ne: "xs \<noteq> []" "ys \<noteq> []" using a len by auto
  have "Min (set xs) \<le> a" "b \<le> Max (set xs)" using a b by simp_all
  then have mm: "Max (set xs) \<noteq> Min (set xs)" using ab by linarith
  define xm where "xm = mean xs"
  have ss: "mean (map (\<lambda>x. (x - xm) * (x - xm)) xs) \<noteq> 0"
  proof
    assume "mean (map (\<lambda>x. (x - xm) * (x - xm)) xs) = 0"
    then have "sum_list (map (\<lambda>x. (x - xm) * (x - xm)) xs) = 0"
      using ne by (simp add: mean_def)
    moreover have "\<And>v. v \<in> set (map (\<lambda>x. (x - xm) * (x - xm)) xs) \<Longrightarrow> 0 \<le> v" by auto
    ultimately have "\<forall>v \<in> set (map (\<lambda>x. (x - xm) * (x - xm)) xs). v = 0"
      by (simp only: sum_list_nonneg_eq_0_iff)
    then have "\<forall>x \<in> set xs. x = xm" by simp
    then have "a = xm" "b = xm" using a b by blast+
    then show False using ab by simp
  qed
  show ?thesis
    unfolding linregress_def Let_def using ne mm len ss
    by (simp add: np_div_def bind_err_def xm_def)
qed

section \<open>Bounds on heat loss and thermal resistance\<close>

text \<open>
  The heat loss per metre lies between \<open>\<Delta>T / (R + len / (m * cp))\<close> and \<open>\<Delta>T / R\<close>.
\<close>

lemma one_minus_exp_upper: "1 - exp (- z) \<le> (z::real)"
  using exp_ge_add_one_self [of "- z"] by simp

lemma one_minus_exp_lower:
  assumes "0 \<le> (z::real)"
  shows "z / (1 + z) \<le> 1 - exp (- z)"
proof -
  have "1 + z \<le> exp z" by simp
  then have "exp (- z) \<le> 1 / (1 + z)"
    using assms by (simp add: exp_minus field_simps)
  moreover have "1 - 1 / (1 + z) = z / (1 + z)" using assms by (simp add: field_simps)
  ultimately show ?thesis by linarith
qed

lemma heat_loss_value_factored:
  assumes "len \<noteq> 0"
  shows "heat_loss_value w m len t_in r t_amb =
     m * Water_heat_capacity_cp w * (t_in - t_amb)
       * (1 - exp (- (len / (m * Water_heat_capacity_cp w * r)))) / len"
  unfolding heat_loss_value_def by (simp add: algebra_simps)

lemma heat_loss_algebra_upper:
  fixes k r len d :: real
  assumes "0 < k" "0 < r" "0 < len"
  shows "(k * d / len) * (len / (k * r)) = d / r"
  using assms by (simp add: field_simps)

lemma heat_loss_algebra_lower:
  fixes k r len d :: real
  assumes k: "0 < k" and r: "0 < r" and len: "0 < len"
  shows "d / (r + len / k) = (k * d / len) * ((len / (k * r)) / (1 + len / (k * r)))"
proof -
  have kr: "0 < k * r" using k r by (rule mult_pos_pos)
  have s: "0 < k * r + len" using kr len by simp
  have "(len / (k * r)) / (1 + len / (k * r)) = len / (k * r + len)"
    using k r len by (simp add: field_simps)
  moreover have "r + len / k = (k * r + len) / k" using k by (simp add: field_simps)
  ultimately show ?thesis using k len s by (simp add: field_simps)
qed

lemma heat_loss_value_upper:
  assumes k: "0 < m * Water_heat_capacity_cp w" and r: "0 < r" and len: "0 < len"
    and dt: "0 \<le> t_in - t_amb"
  shows "heat_loss_value w m len t_in r t_amb \<le> (t_in - t_amb) / r"
proof -
  define k where "k = m * Water_heat_capacity_cp w"
  define d where "d = t_in - t_amb"
  have k0: "0 < k" using k by (simp add: k_def)
  have c: "0 \<le> k * d / len" using k0 len dt by (simp add: d_def)
  have "heat_loss_value w m len t_in r t_amb = (k * d / len) * (1 - exp (- (len / (k * r))))"
    using len by (simp add: heat_loss_value_factored k_def d_def)
  also have "\<dots> \<le> (k * d / len) * (len / (k * r))"
    using one_minus_exp_upper c by (rule mult_left_mono)
  also have "\<dots> = d / r" using k0 r len by (rule heat_loss_algebra_upper)
  finally show ?thesis by (simp add: d_def)
qed

lemma heat_loss_value_lower:
  assumes k: "0 < m * Water_heat_capacity_cp w" and r: "0 < r" and len: "0 < len"
    and dt: "0 \<le> t_in - t_amb"
  shows "(t_in - t_amb) / (r + len / (m * Water_heat_capacity_cp w))
           \<le> heat_loss_value w m len t_in r t_amb"
proof -
  define k where "k = m * Water_heat_capacity_cp w"
  define d where "d = t_in - t_amb"
  have k0: "0 < k" using k by (simp add: k_def)
  have z: "0 \<le> len / (k * r)" using k0 r len by simp
  have c: "0 \<le> k * d / len" using k0 len dt by (simp add: d_def)
  have "d / (r + len / k) = (k * d / len) * ((len / (k * r)) / (1 + len / (k * r)))"
    using k0 r len by (rule heat_loss_algebra_lower)
  also have "\<dots> \<le> (k * d / len) * (1 - exp (- (len / (k * r))))"
    using one_minus_exp_lower [OF z] c by (rule mult_left_mono)
  also have "\<dots> = heat_loss_value w m len t_in r t_amb"
    using len by (simp add: heat_loss_value_factored k_def d_def)
  finally show ?thesis by (simp add: d_def k_def)
qed

lemma ln_lower: "0 < (x::real) \<Longrightarrow> 1 - 1 / x \<le> ln x"
  using ln_le_minus_one [of "1 / x"] by (simp add: ln_div)

lemma over_two_pi_lower:
  assumes "0 \<le> a" "a \<le> y" "0 < k"
  shows "a / (8 * k) \<le> y / (2 * pi * k)"
proof -
  have le: "2 * pi * k \<le> 8 * k" using pi_less_4 assms(3) by simp
  have pos: "0 < (8 * k) * (2 * pi * k)" using assms(3) by simp
  have "a / (8 * k) \<le> a / (2 * pi * k)" by (rule divide_left_mono [OF le assms(1) pos])
  also have "\<dots> \<le> y / (2 * pi * k)" using assms(2,3) by (intro divide_right_mono) simp_all
  finally show ?thesis .
qed

lemma over_two_pi_upper:
  assumes "y \<le> b" "0 \<le> b" "0 < k"
  shows "y / (2 * pi * k) \<le> b / (4 * k)"
proof -
  have le: "4 * k \<le> 2 * pi * k" using pi_ge_two assms(3) by simp
  have pos: "0 < (2 * pi * k) * (4 * k)" using assms(3) by simp
  have "b / (2 * pi * k) \<le> b / (4 * k)" by (rule divide_left_mono [OF le assms(2) pos])
  moreover have "y / (2 * pi * k) \<le> b / (2 * pi * k)" using assms(1,3) by (intro divide_right_mono) simp_all
  ultimately show ?thesis by linarith
qed

lemma resistance_sum_lower:
  assumes x: "1 \<le> x" and q: "1 \<le> q" and kp: "0 < kp" and kg: "0 < kg"
    and c: "c * (8 * kp) \<le> 1 - 1 / x"
  shows "c \<le> ln x / (2 * pi * kp) + ln q / (2 * pi * kg)"
proof -
  have a0: "0 \<le> 1 - 1 / x" using x by simp
  have "1 - 1 / x \<le> ln x" using x by (intro ln_lower) simp
  with a0 have "(1 - 1 / x) / (8 * kp) \<le> ln x / (2 * pi * kp)"
    using kp by (rule over_two_pi_lower)
  moreover have "c \<le> (1 - 1 / x) / (8 * kp)" using c kp by (simp add: pos_le_divide_eq)
  moreover have "0 \<le> ln q / (2 * pi * kg)" using q kg by simp
  ultimately show ?thesis by linarith
qed

lemma resistance_sum_upper:
  assumes x: "1 \<le> x" and q: "1 \<le> q" and kp: "0 < kp" and kg: "0 < kg"
    and c: "(x - 1) / (4 * kp) + (q - 1) / (4 * kg) \<le> c"
  shows "ln x / (2 * pi * kp) + ln q / (2 * pi * kg) \<le> c"
proof -
  have "ln x \<le> x - 1" using x by (intro ln_le_minus_one) simp
  moreover have "0 \<le> x - 1" using x by simp
  ultimately have 1: "ln x / (2 * pi * kp) \<le> (x - 1) / (4 * kp)"
    using kp by (rule over_two_pi_upper)
  have "ln q \<le> q - 1" using q by (intro ln_le_minus_one) simp
  moreover have "0 \<le> q - 1" using q by simp
  ultimately have 2: "ln q / (2 * pi * kg) \<le> (q - 1) / (4 * kg)"
    using kg by (rule over_two_pi_upper)
  show ?thesis using 1 2 c by linarith
qed

lemma quotient_le: "0 < (r::real) \<Longrightarrow> d \<le> c * r \<Longrightarrow> d / r \<le> c"
  by (simp add: pos_divide_le_eq)

lemma le_quotient: "0 < (r::real) \<Longrightarrow> c * r \<le> d \<Longrightarrow> c \<le> d / r"
  by (simp add: pos_le_divide_eq)

section \<open>The velocity solver\<close>

text \<open>The residual raises at most \<open>ZeroDivisionError\<close>, and for turbulent flow in a pipe of
  moderate relative roughness it is defined.\<close>

lemma vel_calculation_errors:
  assumes "vel_calculation w diameter roughness max_spec_pressure_loss vel = Inl e"
  shows "e = ZeroDivisionError \<or> e = NotReal"
  using assms
  unfolding vel_calculation_def py_div_def np_div_def py_pow_def np_log10_def np_pow_minus2_def
    np_sqrt_def bind_err_def
  by (auto split: if_splits)

lemma vel_calculation_defined:
  assumes rho: "0 < Water_density w" and mu: "0 < Water_dynamic_viscosity w"
    and d: "0 < diameter" and rough: "0 < roughness" "roughness \<le> 3.7 * diameter / 2"
    and p: "0 \<le> max_spec_pressure_loss" and v: "0 < vel"
    and re: "13.8 * Water_dynamic_viscosity w < Water_density w * vel * diameter"
  shows "\<exists>y. vel_calculation w diameter roughness max_spec_pressure_loss vel = Inr y"
proof -
  define rel where "rel = roughness / (3.7 * diameter)"
  define Re where "Re = Water_density w * vel * diameter / Water_dynamic_viscosity w"
  define arg where "arg = rel powr 1.11 + 6.9 / Re"
  define f where "f = 1 / (- 1.8 * log 10 arg)\<^sup>2"
  have d37: "3.7 * diameter \<noteq> 0" using d by simp
  have rel0: "0 < rel" using rough(1) d by (simp add: rel_def)
  have rel1: "rel \<le> 1 / 2" using rough(2) d by (simp add: rel_def field_simps)
  have "rel powr 1.11 \<le> rel" using rel0 rel1 by (intro powr_le_one_le) simp_all
  then have rp: "rel powr 1.11 \<le> 1 / 2" using rel1 by linarith
  have rp0: "0 < rel powr 1.11" using rel0 by simp
  have Re13: "13.8 < Re" using re mu by (simp add: Re_def pos_less_divide_eq)
  then have Re0: "0 < Re" by linarith
  have "6.9 < Re * (1 / 2)" using Re13 by simp
  then have t: "6.9 / Re < 1 / 2" using Re0 by (simp add: pos_divide_less_eq)
  have t0: "0 < 6.9 / Re" using Re0 by simp
  have arg0: "0 < arg" and arg1: "arg < 1" using rp rp0 t t0 unfolding arg_def by linarith+
  have "log 10 arg < 0" using arg0 arg1 by simp
  then have lg: "- 1.8 * log 10 arg \<noteq> 0" by simp
  then have f0: "0 < f" unfolding f_def by simp
  have frho: "f * Water_density w \<noteq> 0" using f0 rho by simp
  have q: "0 \<le> 2 * max_spec_pressure_loss * diameter / (f * Water_density w)"
    using p d f0 rho by simp
  have 1: "py_div roughness (3.7 * diameter) = Inr rel" using d37 by (simp add: py_div_def rel_def)
  have 2: "np_div (Water_density w * vel * diameter) (Water_dynamic_viscosity w) = Inr Re"
    using mu by (simp add: np_div_def Re_def)
  have 3: "py_pow rel 1.11 = Inr (rel powr 1.11)" using rel0 by (simp add: py_pow_def)
  have 4: "np_div 6.9 Re = Inr (6.9 / Re)" using Re0 by (simp add: np_div_def)
  have 5: "np_log10 (rel powr 1.11 + 6.9 / Re) = Inr (log 10 arg)"
    using arg0 by (simp add: np_log10_def arg_def)
  have 6: "np_pow_minus2 (- 1.8 * log 10 arg) = Inr f" using lg by (simp add: np_pow_minus2_def f_def)
  have 7: "np_div (2 * max_spec_pressure_loss * diameter) (f * Water_density w)
      = Inr (2 * max_spec_pressure_loss * diameter / (f * Water_density w))"
    using frho by (simp add: np_div_def)
  have 8: "np_sqrt (2 * max_spec_pressure_loss * diameter / (f * Water_density w))
      = Inr (sqrt (2 * max_spec_pressure_loss * diameter / (f * Water_density w)))"
    using q by (simp add: np_sqrt_def)
  show ?thesis
    unfolding vel_calculation_def 1 2 3 4 5 6 7 8 bind_err_Inr by blast
qed

lemma example_residual_defined:
  assumes "diameter \<in> {0.05, 0.1, 0.15}"
  shows "\<exists>y. vel_calculation example_water diameter 0.001 150 V_INIT = Inr y"
proof (rule vel_calculation_defined)
  show "0 < Water_density example_water" "0 < Water_dynamic_viscosity example_water"
    by (simp_all add: example_water_def)
  show "0 < diameter" "(0.001::real) \<le> 3.7 * diameter / 2" using assms by auto
  show "(0::real) < 0.001" "(0::real) \<le> 150" "0 < V_INIT" by (simp_all add: V_INIT_def)
  show "13.8 * Water_dynamic_viscosity example_water < Water_density example_water * V_INIT * diameter"
    using assms by (auto simp: example_water_def V_INIT_def)
qed

lemma fsolve_fixed_solver:
  assumes "func x0 = Inr y" and "st \<in> {1, 2, 3, 4, 5}"
  shows "fsolve (fixed_solver v st) func x0 = Inr v"
  using assms by (auto simp: fsolve_def fixed_solver_def bind_err_Inr)

lemma example_max_flow_velocity:
  assumes "diameter \<in> {0.05, 0.1, 0.15}" and "st \<in> {1, 2, 3, 4, 5}"
  shows "max_flow_velocity (fixed_solver v st) example_water V_INIT diameter 0.001 150 = Inr v"
proof -
  obtain y where "vel_calculation example_water diameter 0.001 150 V_INIT = Inr y"
    using example_residual_defined [OF assms(1)] by blast
  then show ?thesis unfolding max_flow_velocity_def using assms(2) by (rule fsolve_fixed_solver)
qed

lemma example_velocity_max:
  assumes "st \<in> {1, 2, 3, 4, 5}"
  shows "velocity_max (fixed_solver v st) example_water example_piping = Inr [v, v, v]"
proof -
  have "max_flow_velocity (fixed_solver v st) example_water V_INIT 0.05 0.001 150 = Inr v"
    "max_flow_velocity (fixed_solver v st) example_water V_INIT 0.1 0.001 150 = Inr v"
    "max_flow_velocity (fixed_solver v st) example_water V_INIT 0.15 0.001 150 = Inr v"
    by (rule example_max_flow_velocity [OF _ assms], simp)+
  then show ?thesis
    by (simp add: velocity_max_def example_piping_def np_elem_Inr bind_err_Inr)
qed

lemma max_flow_velocity_errors:
  assumes "max_flow_velocity hybrd w vel_init diameter roughness max_spec_pressure_loss = Inl e"
  shows "e = ZeroDivisionError \<or> e = NotReal \<or> e = TypeError"
proof (cases "vel_calculation w diameter roughness max_spec_pressure_loss vel_init")
  case (Inl e')
  then have "e = e'" using assms by (simp add: max_flow_velocity_def fsolve_def bind_err_Inl)
  then show ?thesis using vel_calculation_errors [OF Inl] by auto
next
  case (Inr y)
  then show ?thesis
    using assms by (simp add: max_flow_velocity_def fsolve_def bind_err_Inr Let_def split: if_splits)
qed

lemma np_elem_errors:
  assumes "np_elem r = Inl e"
    and "\<And>e'. r = Inl e' \<Longrightarrow> e' = ZeroDivisionError \<or> e' = NotReal \<or> e' = TypeError"
  shows "e = NotReal \<or> e = TypeError"
  using assms by (cases r) (auto simp: np_elem_def split: if_splits)

lemma velocity_max_errors:
  assumes "velocity_max hybrd w p = Inl e"
  shows "e = NotReal \<or> e = TypeError"
proof -
  obtain d where "np_elem (max_flow_velocity hybrd w V_INIT d (Piping_roughness p)
      (Piping_max_pr_loss p)) = Inl e"
    using map_err_Inl [OF assms [unfolded velocity_max_def]] by blast
  then show ?thesis by (rule np_elem_errors) (rule max_flow_velocity_errors)
qed

lemma linregress_errors:
  assumes "linregress xs ys = Inl e"
  shows "e = ValueError \<or> e = NotReal"
  using assms unfolding linregress_def Let_def np_div_def bind_err_def
  by (auto split: if_splits)

lemma regression_thermal_capacity_errors:
  assumes "regression_thermal_capacity hybrd w p t_supply t_return = Inl e"
  shows "e = NotReal \<or> e = TypeError \<or> e = ValueError"
proof (cases "velocity_max hybrd w p")
  case (Inl e')
  then have "e = e'" using assms by (simp add: regression_thermal_capacity_def bind_err_Inl)
  then show ?thesis using velocity_max_errors [OF Inl] by auto
next
  case (Inr vmax)
  define xs where "xs = map (\<lambda>x. x / 1000)
     (map (\<lambda>m. pipe_capacity w m t_supply t_return)
        (map (\<lambda>(v, d). mass_flow w v d) (zip vmax (Piping_diameter p))))"
  show ?thesis
  proof (cases "linregress xs (Piping_cost p)")
    case (Inl e')
    then have "e = e'"
      using assms unfolding regression_thermal_capacity_def Inr bind_err_Inr Let_def
        xs_def [symmetric] by (simp add: bind_err_Inl)
    then show ?thesis using linregress_errors [OF Inl] by auto
  next
    case fit: (Inr regression)
    then show ?thesis
      using assms unfolding regression_thermal_capacity_def Inr bind_err_Inr Let_def
        xs_def [symmetric] by (simp add: bind_err_Inr)
  qed
qed

text \<open>
  Claim C7, as stated, fails. For a pressure-loss budget of \<open>10 ^ 12\<close> Pa/m the iteration
  from 0.5 m/s does not converge; what MINPACK returns there is not computed here, and
  the stand-in records only that the iteration gives up. Whatever the iterate, the call
  returns it instead of raising, and neither the call nor the regression over the catalog
  ends in a \<open>ConvergenceError\<close>.
\<close>

theorem max_flow_velocity_gives_up_without_error:
  "fsolve_status (stalled_solver (vel_calculation example_water 0.1 0.001 (10 ^ 12)) 0.5) \<noteq> 1
   \<and> \<not> isl (max_flow_velocity stalled_solver example_water 0.5 0.1 0.001 (10 ^ 12))
   \<and> max_flow_velocity stalled_solver example_water 0.5 0.1 0.001 (10 ^ 12) \<noteq> Inl ConvergenceError
   \<and> regression_thermal_capacity stalled_solver example_water high_pressure_piping 80 50
       \<noteq> Inl ConvergenceError"
proof -
  have "\<exists>y. vel_calculation example_water 0.1 0.001 (10 ^ 12) 0.5 = Inr y"
    by (rule vel_calculation_defined) (simp_all add: example_water_def)
  then obtain y where y: "vel_calculation example_water 0.1 0.001 (10 ^ 12) 0.5 = Inr y" by blast
  have v: "max_flow_velocity stalled_solver example_water 0.5 0.1 0.001 (10 ^ 12) = Inr 0.5"
    unfolding max_flow_velocity_def fsolve_def y bind_err_Inr by (simp add: stalled_solver_def)
  have r: "regression_thermal_capacity stalled_solver example_water high_pressure_piping 80 50
       \<noteq> Inl ConvergenceError"
    using regression_thermal_capacity_errors by fastforce
  show ?thesis using v r by (simp add: stalled_solver_def)
qed

text \<open>
  Claim C7, amended. \<open>max_flow_velocity\<close> never raises a \<open>ConvergenceError\<close>, whether or
  not the root finder converges, and neither do the sweep over the catalog and
  \<open>regression_thermal_capacity\<close>.
\<close>

theorem max_flow_velocity_no_convergence_error:
  "max_flow_velocity hybrd w vel_init diameter roughness max_spec_pressure_loss \<noteq> Inl ConvergenceError
   \<and> velocity_max hybrd w p \<noteq> Inl ConvergenceError
   \<and> regression_thermal_capacity hybrd w p t_supply t_return \<noteq> Inl ConvergenceError"
proof (intro conjI notI)
  assume "max_flow_velocity hybrd w vel_init diameter roughness max_spec_pressure_loss
      = Inl ConvergenceError"
  from max_flow_velocity_errors [OF this] show False by simp
next
  assume "velocity_max hybrd w p = Inl ConvergenceError"
  from velocity_max_errors [OF this] show False by simp
next
  assume "regression_thermal_capacity hybrd w p t_supply t_return = Inl ConvergenceError"
  from regression_thermal_capacity_errors [OF this] show False by simp
qed

section \<open>The regressions\<close>

lemma regression_thermal_capacity_params:
  assumes "regression_thermal_capacity hybrd w p t_supply t_return = Inr tc"
  shows "\<exists>fit. linregress (map (\<lambda>x. x / 1000) (power_flow_max tc)) (Piping_cost p) = Inr fit
       \<and> params_a (params tc) = np_round (slope fit) 6
       \<and> params_b (params tc) = np_round (intercept fit) 3"
  using assms unfolding regression_thermal_capacity_def Let_def bind_err_eq_Inr by auto

lemma regression_heat_losses_params:
  assumes "regression_heat_losses w g p t_supply t_ambient tc = Inr hl"
  shows "\<exists>fit. linregress (map (\<lambda>x. x / 1000) (power_flow_max tc))
                 (map (\<lambda>x. x / 1000) (heat_loss hl)) = Inr fit
       \<and> params_a (factors hl) = np_round (slope fit) 10
       \<and> params_b (factors hl) = np_round (intercept fit) 6"
  using assms unfolding regression_heat_losses_def Let_def bind_err_eq_Inr
  by (auto split: if_splits simp: bind_err_eq_Inr)

lemma regression_heat_losses_two_pipes:
  assumes p: "Piping_diameter p = [d1, d2]" "Piping_ratio p = [r1, r2]"
    and tc: "mass_flow_max tc = [m1, m2]" "power_flow_max tc = [P1, P2]"
    and res: "thermal_resistance g p d1 r1 1 = Inr R1" "thermal_resistance g p d2 r2 1 = Inr R2"
    and loss: "heat_loss_pipe w m1 100 t_supply R1 t_ambient = Inr h1"
      "heat_loss_pipe w m2 100 t_supply R2 t_ambient = Inr h2"
    and fit: "linregress [P1 / 1000, P2 / 1000] [h1 / 1000, h2 / 1000] = Inr fit"
  shows "regression_heat_losses w g p t_supply t_ambient tc =
     Inr \<lparr>heat_loss = [h1, h2],
          factors = \<lparr>params_a = np_round (slope fit) 10,
                     params_b = np_round (intercept fit) 6,
                     params_r2 = (rvalue fit)\<^sup>2\<rparr>\<rparr>"
  unfolding regression_heat_losses_def Piping_number_diameter_def Let_def
  by (simp add: p tc res loss fit np_elem_Inr bind_err_Inr)

text \<open>The heat-loss regression on the two-pipe catalog.\<close>

lemma two_pipe_resistance_1:
  "\<exists>R1. thermal_resistance example_ground two_pipe_catalog 0.05 4 1 = Inr R1 \<and> 39 / 10 \<le> R1"
proof -
  have v: "thermal_resistance example_ground two_pipe_catalog 0.05 4 1 =
      Inr (ln 4 / (2 * pi * 0.024) + ln 20 / (2 * pi * 2.4))"
    by (simp add: thermal_resistance_value example_ground_def two_pipe_catalog_def)
  have b: "39 / 10 \<le> ln 4 / (2 * pi * 0.024) + ln 20 / (2 * pi * 2.4)"
    by (rule resistance_sum_lower) simp_all
  show ?thesis by (intro exI conjI) (rule v, rule b)
qed

lemma two_pipe_resistance_2:
  "\<exists>R2. thermal_resistance example_ground two_pipe_catalog 0.4 1.25 1 = Inr R2
     \<and> 26 / 25 \<le> R2 \<and> R2 \<le> 167 / 50"
proof -
  have v: "thermal_resistance example_ground two_pipe_catalog 0.4 1.25 1 =
      Inr (ln 1.25 / (2 * pi * 0.024) + ln 8 / (2 * pi * 2.4))"
    by (simp add: thermal_resistance_value example_ground_def two_pipe_catalog_def)
  have lo: "26 / 25 \<le> ln 1.25 / (2 * pi * 0.024) + ln 8 / (2 * pi * 2.4)"
    by (rule resistance_sum_lower) simp_all
  have hi: "ln 1.25 / (2 * pi * 0.024) + ln 8 / (2 * pi * 2.4) \<le> 167 / 50"
    by (rule resistance_sum_upper) simp_all
  show ?thesis by (intro exI conjI) (rule v, rule lo, rule hi)
qed

lemma two_pipe_heat_losses:
  "\<exists>hl h1 h2.
     regression_heat_losses example_water example_ground two_pipe_catalog 80 (- 10) two_pipe_capacity
       = Inr hl
     \<and> heat_loss hl = [h1, h2]
     \<and> params_a (factors hl) = np_round ((h2 / 1000 - h1 / 1000) / (104675000 / 1000 - 104675 / 1000)) 10
     \<and> 0 \<le> h1 \<and> h1 \<le> 231 / 10 \<and> 269 / 10 \<le> h2 \<and> h2 \<le> 433 / 5"
proof -
  obtain R1 where r1: "thermal_resistance example_ground two_pipe_catalog 0.05 4 1 = Inr R1"
    and R1: "39 / 10 \<le> R1"
    using two_pipe_resistance_1 by blast
  obtain R2 where r2: "thermal_resistance example_ground two_pipe_catalog 0.4 1.25 1 = Inr R2"
    and R2: "26 / 25 \<le> R2" "R2 \<le> 167 / 50"
    using two_pipe_resistance_2 by blast
  define h1 where "h1 = heat_loss_value example_water 1 100 80 R1 (- 10)"
  define h2 where "h2 = heat_loss_value example_water 1000 100 80 R2 (- 10)"
  have cp: "Water_heat_capacity_cp example_water = 4187" by (simp add: example_water_def)
  have k1: "0 < 1 * Water_heat_capacity_cp example_water"
    and k2: "0 < 1000 * Water_heat_capacity_cp example_water"
    by (simp_all add: cp)
  have R1_pos: "0 < R1" and R2_pos: "0 < R2" using R1 R2 by linarith+
  have len: "(0::real) < 100" and dt: "(0::real) \<le> 80 - (- 10)" by simp_all
  have l1: "heat_loss_pipe example_water 1 100 80 R1 (- 10) = Inr h1"
    unfolding h1_def using R1_pos by (intro heat_loss_pipe_value) (simp_all add: cp)
  have l2: "heat_loss_pipe example_water 1000 100 80 R2 (- 10) = Inr h2"
    unfolding h2_def using R2_pos by (intro heat_loss_pipe_value) (simp_all add: cp)
  obtain fit where fit: "linregress [104675 / 1000, 104675000 / 1000] [h1 / 1000, h2 / 1000] = Inr fit"
    and sl: "slope fit = (h2 / 1000 - h1 / 1000) / (104675000 / 1000 - 104675 / 1000)"
    using linregress_two_points [of "104675 / 1000" "104675000 / 1000" "h1 / 1000" "h2 / 1000"]
    by auto
  have p: "Piping_diameter two_pipe_catalog = [0.05, 0.4]" "Piping_ratio two_pipe_catalog = [4, 1.25]"
    by (simp_all add: two_pipe_catalog_def)
  have tc: "mass_flow_max two_pipe_capacity = [1, 1000]"
    "power_flow_max two_pipe_capacity = [104675, 104675000]"
    by (simp_all add: two_pipe_capacity_def)
  note ev = regression_heat_losses_two_pipes [OF p tc r1 r2 l1 l2 fit]
  have u1: "h1 \<le> (80 - (- 10)) / R1"
    unfolding h1_def using k1 R1_pos len dt by (rule heat_loss_value_upper)
  have "(80 - (- 10)) / R1 \<le> 231 / 10" using R1_pos R1 by (intro quotient_le) simp_all
  with u1 have h1_hi: "h1 \<le> 231 / 10" by linarith
  have lo1: "(80 - (- 10)) / (R1 + 100 / (1 * Water_heat_capacity_cp example_water)) \<le> h1"
    unfolding h1_def using k1 R1_pos len dt by (rule heat_loss_value_lower)
  have "0 \<le> (80 - (- 10)) / (R1 + 100 / (1 * Water_heat_capacity_cp example_water))"
    using R1_pos by (simp add: cp)
  with lo1 have h1_lo: "0 \<le> h1" by linarith
  have u2: "h2 \<le> (80 - (- 10)) / R2"
    unfolding h2_def using k2 R2_pos len dt by (rule heat_loss_value_upper)
  have "(80 - (- 10)) / R2 \<le> 433 / 5" using R2_pos R2 by (intro quotient_le) simp_all
  with u2 have h2_hi: "h2 \<le> 433 / 5" by linarith
  have lo2: "(80 - (- 10)) / (R2 + 100 / (1000 * Water_heat_capacity_cp example_water)) \<le> h2"
    unfolding h2_def using k2 R2_pos len dt by (rule heat_loss_value_lower)
  have "269 / 10 \<le> (80 - (- 10)) / (R2 + 100 / (1000 * Water_heat_capacity_cp example_water))"
    using R2_pos R2 by (intro le_quotient) (simp_all add: cp)
  with lo2 have h2_lo: "269 / 10 \<le> h2" by linarith
  show ?thesis
    by (intro exI conjI) (rule ev, simp, simp add: sl, rule h1_lo, rule h1_hi, rule h2_lo, rule h2_hi)
qed

text \<open>The capacity regression on the example catalog, with every solve ending at 1 m/s.\<close>

lemma example_thermal_capacity:
  "\<exists>tc. regression_thermal_capacity (fixed_solver 1 1) example_water example_piping 80 50 = Inr tc"
proof -
  have vm: "velocity_max (fixed_solver 1 1) example_water example_piping = Inr [1, 1, 1]"
    by (rule example_velocity_max) simp
  define xs where "xs = map (\<lambda>x. x / 1000)
     (map (\<lambda>m. pipe_capacity example_water m 80 50)
        (map (\<lambda>(v, d). mass_flow example_water v d) (zip [1, 1, 1] (Piping_diameter example_piping))))"
  have xs: "xs = [pipe_capacity example_water (mass_flow example_water 1 0.05) 80 50 / 1000,
                  pipe_capacity example_water (mass_flow example_water 1 0.1) 80 50 / 1000,
                  pipe_capacity example_water (mass_flow example_water 1 0.15) 80 50 / 1000]"
    by (simp add: xs_def example_piping_def)
  have lt: "pipe_capacity example_water (mass_flow example_water 1 0.05) 80 50 / 1000
          < pipe_capacity example_water (mass_flow example_water 1 0.1) 80 50 / 1000"
    by (simp add: pipe_capacity_def mass_flow_def example_water_def power2_eq_square)
  have "\<exists>fit. linregress xs (Piping_cost example_piping) = Inr fit"
    by (rule linregress_returns [OF _ _ _ lt]) (simp_all add: xs example_piping_def)
  then obtain fit where "linregress xs (Piping_cost example_piping) = Inr fit" by blast
  then show ?thesis
    unfolding regression_thermal_capacity_def vm bind_err_Inr Let_def xs_def [symmetric]
    by (simp add: bind_err_Inr)
qed

text \<open>
  Claim C2, as stated, fails for \<open>regression_heat_losses\<close>: on the two-pipe catalog the
  returned slope \<open>a\<close> is not a number of six decimal places.
\<close>

theorem regression_heat_losses_slope_not_six_decimals:
  "\<not> isl (regression_heat_losses example_water example_ground two_pipe_catalog 80 (- 10)
            two_pipe_capacity)
   \<and> \<not> decimal_places 6 (params_a (factors (projr
         (regression_heat_losses example_water example_ground two_pipe_catalog 80 (- 10)
            two_pipe_capacity))))"
proof -
  obtain hl h1 h2 where ev:
      "regression_heat_losses example_water example_ground two_pipe_catalog 80 (- 10) two_pipe_capacity
         = Inr hl"
    and a: "params_a (factors hl)
         = np_round ((h2 / 1000 - h1 / 1000) / (104675000 / 1000 - 104675 / 1000)) 10"
    and b: "0 \<le> h1" "h1 \<le> 231 / 10" "269 / 10 \<le> h2" "h2 \<le> 433 / 5"
    using two_pipe_heat_losses by blast
  define s where "s = (h2 / 1000 - h1 / 1000) / (104675000 / 1000 - 104675 / 1000)"
  have s: "s = (h2 - h1) / 104570325" by (simp add: s_def field_simps)
  have "3 / 100000000 \<le> s" unfolding s using b by (intro le_quotient) simp_all
  then have lo: "1 / (2 * 10 ^ 10) < s" by simp
  have "s \<le> 9 / 10000000" unfolding s using b by (intro quotient_le) simp_all
  then have hi: "s < 1 / 10 ^ 6 - 1 / (2 * 10 ^ 10)" by simp
  from lo hi have "\<not> decimal_places 6 (np_round s 10)" by (rule np_round_small_not_decimal)
  then show ?thesis unfolding ev using a by (simp add: s_def)
qed

text \<open>
  Claim C2, amended. Whenever \<open>regression_thermal_capacity\<close> returns, its coefficient \<open>a\<close>
  is the fitted slope rounded to 6 decimal places and \<open>b\<close> the fitted intercept rounded to
  3; whenever \<open>regression_heat_losses\<close> returns, its \<open>a\<close> is the fitted slope rounded to 10
  decimal places and \<open>b\<close> the fitted intercept rounded to 6.
\<close>

theorem regression_rounding:
  "(regression_thermal_capacity hybrd w p t_supply t_return = Inr tc \<longrightarrow>
      (\<exists>fit. linregress (map (\<lambda>x. x / 1000) (power_flow_max tc)) (Piping_cost p) = Inr fit
         \<and> params_a (params tc) = np_round (slope fit) 6
         \<and> params_b (params tc) = np_round (intercept fit) 3)
      \<and> decimal_places 6 (params_a (params tc)) \<and> decimal_places 3 (params_b (params tc)))
   \<and> (regression_heat_losses w g p t_sup t_ambient tc' = Inr hl \<longrightarrow>
      (\<exists>fit. linregress (map (\<lambda>x. x / 1000) (power_flow_max tc'))
                 (map (\<lambda>x. x / 1000) (heat_loss hl)) = Inr fit
         \<and> params_a (factors hl) = np_round (slope fit) 10
         \<and> params_b (factors hl) = np_round (intercept fit) 6)
      \<and> decimal_places 10 (params_a (factors hl)) \<and> decimal_places 6 (params_b (factors hl)))"
proof (intro conjI impI)
  assume a: "regression_thermal_capacity hybrd w p t_supply t_return = Inr tc"
  from regression_thermal_capacity_params [OF a]
  show "\<exists>fit. linregress (map (\<lambda>x. x / 1000) (power_flow_max tc)) (Piping_cost p) = Inr fit
         \<and> params_a (params tc) = np_round (slope fit) 6
         \<and> params_b (params tc) = np_round (intercept fit) 3" .
  from regression_thermal_capacity_params [OF a]
  show "decimal_places 6 (params_a (params tc))" "decimal_places 3 (params_b (params tc))"
    by (auto simp: decimal_places_np_round)
next
  assume a: "regression_heat_losses w g p t_sup t_ambient tc' = Inr hl"
  from regression_heat_losses_params [OF a]
  show "\<exists>fit. linregress (map (\<lambda>x. x / 1000) (power_flow_max tc'))
                 (map (\<lambda>x. x / 1000) (heat_loss hl)) = Inr fit
         \<and> params_a (factors hl) = np_round (slope fit) 10
         \<and> params_b (factors hl) = np_round (intercept fit) 6" .
  from regression_heat_losses_params [OF a]
  show "decimal_places 10 (params_a (factors hl))" "decimal_places 6 (params_b (factors hl))"
    by (auto simp: decimal_places_np_round)
qed

theorem regression_rounding_witness:
  "\<not> isl (regression_thermal_capacity (fixed_solver 1 1) example_water example_piping 80 50)
   \<and> decimal_places 6 (params_a (params (projr
        (regression_thermal_capacity (fixed_solver 1 1) example_water example_piping 80 50))))
   \<and> decimal_places 3 (params_b (params (projr
        (regression_thermal_capacity (fixed_solver 1 1) example_water example_piping 80 50))))
   \<and> \<not> isl (regression_heat_losses example_water example_ground two_pipe_catalog 80 (- 10)
        two_pipe_capacity)
   \<and> decimal_places 10 (params_a (factors (projr
        (regression_heat_losses example_water example_ground two_pipe_catalog 80 (- 10)
           two_pipe_capacity))))
   \<and> decimal_places 6 (params_b (factors (projr
        (regression_heat_losses example_water example_ground two_pipe_catalog 80 (- 10)
           two_pipe_capacity))))"
proof -
  obtain tc where tc:
    "regression_thermal_capacity (fixed_solver 1 1) example_water example_piping 80 50 = Inr tc"
    using example_thermal_capacity by blast
  obtain hl where hl:
    "regression_heat_losses example_water example_ground two_pipe_catalog 80 (- 10) two_pipe_capacity
       = Inr hl"
    using two_pipe_heat_losses by blast
  show ?thesis
    using regression_rounding [where hybrd = "fixed_solver 1 1" and w = example_water
          and p = example_piping and t_supply = 80 and t_return = 50 and tc = tc]
      regression_rounding [where w = example_water and g = example_ground
          and p = two_pipe_catalog and t_sup = 80 and t_ambient = "- 10"
          and tc' = two_pipe_capacity and hl = hl]
      tc hl
    by simp
qed

end
